theory Spec2Isabelle
  imports Main
begin

section \<open>Python values and helpers\<close>

text \<open>
  Strings are \<^typ>\<open>string\<close>; a character is one code point below 256. The exceptions the
  code can raise are values. A \<open>ValueError\<close> says which one it is: \<open>shlex\<close>'s "No closing
  quotation", the parser's "Conflicting primary key definitions: inline and table-level
  differ", or the one the constructor of a column raises.
\<close>

datatype value_error = NoClosingQuotation | ConflictingPrimaryKeys | InvalidColumn

datatype py_error = IndexError | KeyError | ValueError value_error

text \<open>A default value of a column: the model covers \<open>str\<close> and \<open>int\<close> literals.\<close>

datatype pyval = PStr string | PInt int

definition squote :: char where
  "squote = CHR 0x27"

definition dquote :: char where
  "dquote = CHR 0x22"

fun truthy :: "pyval option \<Rightarrow> bool" where
  "truthy None = False"
| "truthy (Some (PStr s)) = (s \<noteq> [])"
| "truthy (Some (PInt i)) = (i \<noteq> 0)"

definition str_truthy :: "string option \<Rightarrow> bool" where
  "str_truthy v = (case v of None \<Rightarrow> False | Some s \<Rightarrow> s \<noteq> [])"

definition digit_char :: "nat \<Rightarrow> char" where
  "digit_char d = char_of (of_char (CHR ''0'') + d)"

fun nat_digits :: "nat \<Rightarrow> nat \<Rightarrow> string" where
  "nat_digits 0 n = []"
| "nat_digits (Suc fuel) n =
     (if n < 10 then [digit_char n] else nat_digits fuel (n div 10) @ [digit_char (n mod 10)])"

definition str_nat :: "nat \<Rightarrow> string" where
  "str_nat n = nat_digits (Suc n) n"

definition str_int :: "int \<Rightarrow> string" where
  "str_int i = (if i < 0 then ''-'' @ str_nat (nat (- i)) else str_nat (nat i))"

definition hex_char :: "nat \<Rightarrow> char" where
  "hex_char d = (if d < 10 then digit_char d else char_of (of_char (CHR ''a'') + (d - 10)))"

definition printable :: "char \<Rightarrow> bool" where
  "printable c = (let n = (of_char c :: nat) in 32 \<le> n \<and> n < 127 \<or> 161 \<le> n \<and> n \<noteq> 173)"

definition repr_char :: "char \<Rightarrow> char \<Rightarrow> string" where
  "repr_char q c =
     (if c = q \<or> c = CHR 0x5C then [CHR 0x5C, c]
      else if c = CHR 0x09 then [CHR 0x5C, CHR ''t'']
      else if c = CHR 0x0A then [CHR 0x5C, CHR ''n'']
      else if c = CHR 0x0D then [CHR 0x5C, CHR ''r'']
      else if \<not> printable c
        then [CHR 0x5C, CHR ''x'', hex_char ((of_char c :: nat) div 16), hex_char ((of_char c :: nat) mod 16)]
      else [c])"

text \<open>\<open>repr\<close> of a \<open>str\<close> prefers single quotes, and takes double quotes when the
  string holds a single quote and no double quote.\<close>

fun repr :: "pyval \<Rightarrow> string" where
  "repr (PInt i) = str_int i"
| "repr (PStr s) =
     (let q = (if squote \<in> set s \<and> dquote \<notin> set s then dquote else squote)
      in [q] @ concat (map (repr_char q) s) @ [q])"

text \<open>\<open>sep.join(xs)\<close>\<close>

fun join :: "string \<Rightarrow> string list \<Rightarrow> string" where
  "join sep [] = []"
| "join sep [x] = x"
| "join sep (x # y # ys) = x @ sep @ join sep (y # ys)"

text \<open>\<open>s[1:-1]\<close>: the empty string when \<open>s\<close> has fewer than two characters.\<close>

definition slice_1_m1 :: "'a list \<Rightarrow> 'a list" where
  "slice_1_m1 s = butlast (tl s)"

text \<open>
  A \<open>dict\<close> is the list of its items in the order of insertion; its keys are distinct.
  \<open>m.get(k, d)\<close>, \<open>m[k]\<close>, \<open>m[k] = v\<close> (a key that is present keeps its place) and
  \<open>m.update(other)\<close>:
\<close>

type_synonym ('k, 'v) dict = "('k \<times> 'v) list"

definition dict_get :: "('k, 'v) dict \<Rightarrow> 'k \<Rightarrow> 'v \<Rightarrow> 'v" where
  "dict_get m k d = (case map_of m k of Some v \<Rightarrow> v | None \<Rightarrow> d)"

definition dict_lookup :: "('k, 'v) dict \<Rightarrow> 'k \<Rightarrow> py_error + 'v" where
  "dict_lookup m k = (case map_of m k of None \<Rightarrow> Inl KeyError | Some v \<Rightarrow> Inr v)"

fun dict_set :: "'k \<Rightarrow> 'v \<Rightarrow> ('k, 'v) dict \<Rightarrow> ('k, 'v) dict" where
  "dict_set k v [] = [(k, v)]"
| "dict_set k v ((k', v') # kvs) =
     (if k' = k then (k, v) # kvs else (k', v') # dict_set k v kvs)"

definition dict_update :: "('k, 'v) dict \<Rightarrow> ('k, 'v) dict \<Rightarrow> ('k, 'v) dict" where
  "dict_update m other = fold (\<lambda>(k, v) m. dict_set k v m) other m"

section \<open>Column descriptors\<close>

text \<open>
  The class \<open>Column\<close> lives in \<open>luminadb/column.py\<close>; the generator reads these of its
  attributes. \<open>raw_source\<close> is the reference as one string (\<open>table/column\<close>) or \<open>None\<close>,
  \<open>source\<close> and \<open>source_column\<close> are its two parts.
\<close>

record column =
  name :: string
  type :: string
  nullable :: bool
  unique :: bool
  default :: "pyval option"
  primary :: bool
  auto_increment :: bool
  raw_source :: "string option"
  source :: string
  source_column :: string
  on_delete :: string
  on_update :: string

section \<open>The generator: \<open>extract_table_creations\<close>\<close>

text \<open>
  \<open>SQL_ACTIONS\<close> and \<open>DEFAULT_MAPPINGS\<close> are constants of \<open>query_builder/utils.py\<close>; the
  functions that read them take them as arguments.
\<close>

definition iterate_sql_action :: "(string, string) dict \<Rightarrow> string \<Rightarrow> string" where
  "iterate_sql_action SQL_ACTIONS action = dict_get SQL_ACTIONS action action"

definition get_type_mappings ::
  "(string, string) dict \<Rightarrow> (string, string) dict option \<Rightarrow> (string, string) dict" where
  "get_type_mappings DEFAULT_MAPPINGS type_mappings =
     (let maps = DEFAULT_MAPPINGS in
      case type_mappings of
        None \<Rightarrow> maps
      | Some tm \<Rightarrow> if tm \<noteq> [] then dict_update maps tm else maps)"

definition process_column_constraints :: "column \<Rightarrow> string \<Rightarrow> nat \<Rightarrow> string" where
  "process_column_constraints col ctype primary_count =
     (let constraints = '' '' @ name col @ '' '' @ ctype;
          constraints = (if \<not> nullable col then constraints @ '' not null'' else constraints);
          constraints = (if unique col then constraints @ '' unique'' else constraints);
          constraints = (if truthy (default col)
                         then constraints @ '' default '' @ repr (the (default col))
                         else constraints);
          constraints = (if primary col \<and> primary_count = 1
                         then (let constraints = constraints @ '' primary key''
                               in if auto_increment col then constraints @ '' autoincrement''
                                  else constraints)
                         else constraints)
      in constraints)"

text \<open>The loop appends to the two lists it is given; the model returns them with the string.\<close>

fun iterate_etbc_step1 ::
  "column list \<Rightarrow> string \<Rightarrow> column list \<Rightarrow> column list \<Rightarrow> (string, string) dict \<Rightarrow> nat
   \<Rightarrow> string \<times> column list \<times> column list" where
  "iterate_etbc_step1 [] string primaries foreigns maps primary_count =
     (string, primaries, foreigns)"
| "iterate_etbc_step1 (col # columns) string primaries foreigns maps primary_count =
     (let ctype = dict_get maps (type col) (type col);
          string = string @ process_column_constraints col ctype primary_count;
          foreigns = (if str_truthy (raw_source col) then foreigns @ [col] else foreigns);
          primaries = (if primary col \<and> primary_count \<noteq> 1 then primaries @ [col] else primaries);
          string = string @ '',''
      in iterate_etbc_step1 columns string primaries foreigns maps primary_count)"

record extractor =
  columns :: "column list"
  type_mappings :: "(string, string) dict"
  primaries :: "column list"
  foreigns :: "column list"
  string :: string

definition init_extractor ::
  "(string, string) dict \<Rightarrow> column list \<Rightarrow> (string, string) dict option \<Rightarrow> extractor" where
  "init_extractor DEFAULT_MAPPINGS cols tm =
     \<lparr>columns = cols, type_mappings = get_type_mappings DEFAULT_MAPPINGS tm,
      primaries = [], foreigns = [], string = []\<rparr>"

definition process_columns :: "extractor \<Rightarrow> extractor" where
  "process_columns self =
     (let primary_count = length (filter primary (columns self));
          (s, ps, fs) = iterate_etbc_step1 (columns self) (string self) (primaries self)
                          (foreigns self) (type_mappings self) primary_count
      in self\<lparr>string := s, primaries := ps, foreigns := fs\<rparr>)"

definition add_primary_keys :: "extractor \<Rightarrow> extractor" where
  "add_primary_keys self =
     (if primaries self \<noteq> []
      then self\<lparr>string := string self @ '' primary key ('' @
                              join '', '' (map name (primaries self)) @ ''),''\<rparr>
      else self)"

definition foreign_key_clause :: "(string, string) dict \<Rightarrow> column \<Rightarrow> string" where
  "foreign_key_clause SQL_ACTIONS col =
     '' foreign key ('' @ name col @ '') references '' @ source col @ '' ('' @ source_column col @ '')''
     @ '' on delete '' @ iterate_sql_action SQL_ACTIONS (on_delete col)
     @ '' on update '' @ iterate_sql_action SQL_ACTIONS (on_update col) @ '',''"

definition add_foreign_keys :: "(string, string) dict \<Rightarrow> extractor \<Rightarrow> extractor" where
  "add_foreign_keys SQL_ACTIONS self =
     fold (\<lambda>col self. self\<lparr>string := string self @ foreign_key_clause SQL_ACTIONS col\<rparr>)
          (foreigns self) self"

definition extractor_extract :: "(string, string) dict \<Rightarrow> extractor \<Rightarrow> string" where
  "extractor_extract SQL_ACTIONS self =
     slice_1_m1 (string (add_foreign_keys SQL_ACTIONS (add_primary_keys (process_columns self))))"

definition extract_table_creations ::
  "(string, string) dict \<Rightarrow> (string, string) dict \<Rightarrow> column list \<Rightarrow> (string, string) dict option
   \<Rightarrow> string" where
  "extract_table_creations DEFAULT_MAPPINGS SQL_ACTIONS cols tm =
     extractor_extract SQL_ACTIONS (init_extractor DEFAULT_MAPPINGS cols tm)"

section \<open>Strings and lists as the parser uses them\<close>

definition bind_err :: "py_error + 'a \<Rightarrow> ('a \<Rightarrow> py_error + 'b) \<Rightarrow> py_error + 'b" where
  "bind_err m f = (case m of Inl e \<Rightarrow> Inl e | Inr x \<Rightarrow> f x)"

text \<open>\<open>s.lower()\<close>\<close>

definition lower_char :: "char \<Rightarrow> char" where
  "lower_char c =
     (let n = (of_char c :: nat)
      in if 65 \<le> n \<and> n \<le> 90 \<or> 192 \<le> n \<and> n \<le> 222 \<and> n \<noteq> 215 then char_of (n + 32) else c)"

definition lower :: "string \<Rightarrow> string" where
  "lower s = map lower_char s"

text \<open>\<open>s.split(sep)\<close> for a separator of one character: never the empty list.\<close>

fun split :: "char \<Rightarrow> string \<Rightarrow> string list" where
  "split sep [] = [[]]"
| "split sep (c # cs) =
     (if c = sep then [] # split sep cs
      else (case split sep cs of [] \<Rightarrow> [[c]] | w # ws \<Rightarrow> (c # w) # ws))"

text \<open>\<open>s.startswith(p)\<close>\<close>

definition startswith :: "string \<Rightarrow> string \<Rightarrow> bool" where
  "startswith s p = (take (length p) s = p)"

text \<open>\<open>xs.index(x)\<close> for an \<open>x\<close> that occurs in \<open>xs\<close>, and \<open>s.find(c)\<close>, which is \<open>-1\<close> when
  \<open>c\<close> does not occur.\<close>

definition index_of :: "'a list \<Rightarrow> 'a \<Rightarrow> nat" where
  "index_of xs x = length (takeWhile (\<lambda>y. y \<noteq> x) xs)"

definition find_char :: "string \<Rightarrow> char \<Rightarrow> int" where
  "find_char s c = (if c \<in> set s then int (index_of s c) else - 1)"

text \<open>\<open>xs[i]\<close>: a negative index counts from the end, an index out of range raises.\<close>

definition list_get :: "'a list \<Rightarrow> int \<Rightarrow> py_error + 'a" where
  "list_get xs i =
     (if 0 \<le> i \<and> i < int (length xs) then Inr (xs ! nat i)
      else if i < 0 \<and> - int (length xs) \<le> i then Inr (xs ! nat (int (length xs) + i))
      else Inl IndexError)"

text \<open>\<open>table_creation[table_creation.find("(") + 1 : -1]\<close>\<close>

definition body_of :: "string \<Rightarrow> string" where
  "body_of table_creation = butlast (drop (nat (find_char table_creation (CHR ''('') + 1)) table_creation)"

section \<open>The tokenizer: \<open>shlex\<close> of the standard library, as \<open>shlex(s)\<close> sets it up\<close>

text \<open>
  The parser tokenizes with \<open>list(shlex(s))\<close>: the non-POSIX mode, without punctuation
  characters and without \<open>whitespace_split\<close>. \<open>read_token\<close> is a state machine over the
  characters; its states are \<open>' '\<close> (\<open>Blank\<close>), a quote character (\<open>InQuote\<close>) and \<open>'a'\<close>
  (\<open>InWord\<close>). \<open>InComment st\<close> is \<open>readline()\<close> at work after a commenter, in state \<open>st\<close>.
  A token keeps its quotes; a character that ends a word and is no white space is pushed
  back and comes out as a token of its own.
\<close>

definition wordchars :: string where
  "wordchars = ''abcdfeghijklmnopqrstuvwxyzABCDEFGHIJKLMNOPQRSTUVWXYZ0123456789_''"

definition whitespace :: string where
  "whitespace = [CHR '' '', CHR 0x09, CHR 0x0D, CHR 0x0A]"

definition quotes :: string where
  "quotes = [squote, dquote]"

definition commenters :: string where
  "commenters = ''#''"

datatype lex_state = Blank | InQuote char | InWord | InComment lex_state

definition emit :: "string \<Rightarrow> py_error + string list \<Rightarrow> py_error + string list" where
  "emit tok r = (case r of Inl e \<Rightarrow> Inl e | Inr ts \<Rightarrow> Inr (tok # ts))"

fun read_tokens :: "lex_state \<Rightarrow> string \<Rightarrow> string \<Rightarrow> py_error + string list" where
  "read_tokens Blank tok [] = Inr []"
| "read_tokens InWord tok [] = Inr [tok]"
| "read_tokens (InQuote q) tok [] = Inl (ValueError NoClosingQuotation)"
| "read_tokens (InComment st) tok [] = read_tokens st tok []"
| "read_tokens (InComment st) tok (c # cs) =
     (if c = CHR 0x0A then read_tokens st tok cs else read_tokens (InComment st) tok cs)"
| "read_tokens Blank tok (c # cs) =
     (if c \<in> set whitespace
        then (if tok \<noteq> [] then emit tok (read_tokens Blank [] cs) else read_tokens Blank tok cs)
      else if c \<in> set commenters then read_tokens (InComment Blank) tok cs
      else if c \<in> set wordchars then read_tokens InWord [c] cs
      else if c \<in> set quotes then read_tokens (InQuote c) [c] cs
      else emit [c] (read_tokens Blank [] cs))"
| "read_tokens (InQuote q) tok (c # cs) =
     (if c = q then emit (tok @ [c]) (read_tokens Blank [] cs)
      else read_tokens (InQuote q) (tok @ [c]) cs)"
| "read_tokens InWord tok (c # cs) =
     (if c \<in> set whitespace
        then (if tok \<noteq> [] then emit tok (read_tokens Blank [] cs) else read_tokens Blank tok cs)
      else if c \<in> set commenters then read_tokens (InComment InWord) tok cs
      else if c \<in> set wordchars \<or> c \<in> set quotes then read_tokens InWord (tok @ [c]) cs
      else (if tok \<noteq> [] then emit tok (emit [c] (read_tokens Blank [] cs))
            else emit [c] (read_tokens Blank [] cs)))"

definition shlex :: "string \<Rightarrow> py_error + string list" where
  "shlex s = read_tokens Blank [] s"

section \<open>The parser, phase 1: \<open>basic_extract\<close>\<close>

text \<open>
  An entry of \<open>upheld\<close> is the list \<open>[name, type_, foreign, sources, primary, unique,
  nullable, defaults]\<close>, the positional arguments of \<open>Column\<close>; phase 2 may append the
  referential actions to it (\<open>r_extra\<close>).
\<close>

record row =
  r_name :: string
  r_type :: string
  r_foreign :: bool
  r_source :: "string option"
  r_primary :: bool
  r_unique :: bool
  r_nullable :: bool
  r_default :: "string option"
  r_extra :: "string list"

text \<open>The local variables that the loop over the tokens of one fragment assigns.\<close>

record locals =
  l_defaults :: "string option"
  l_sources :: "(string \<times> string) option"
  l_primary :: bool
  l_foreign :: bool
  l_notnull :: bool
  l_unique :: bool

definition init_locals :: locals where
  "init_locals = \<lparr>l_defaults = None, l_sources = None, l_primary = False, l_foreign = False,
                  l_notnull = False, l_unique = False\<rparr>"

definition on_defaults :: "string list \<Rightarrow> string \<Rightarrow> locals \<Rightarrow> py_error + locals" where
  "on_defaults base_columns token l =
     bind_err (list_get base_columns (int (index_of base_columns token) + 1)) (\<lambda>defaults.
     bind_err (list_get defaults 0) (\<lambda>c.
       Inr (l\<lparr>l_defaults := Some (if c \<noteq> dquote \<or> c \<noteq> squote then defaults
                                     else slice_1_m1 defaults)\<rparr>)))"

definition on_reference :: "string list \<Rightarrow> string \<Rightarrow> locals \<Rightarrow> py_error + locals" where
  "on_reference base_columns token l =
     (let tb_index = int (index_of base_columns token) + 1;
          tb_col = tb_index + 1
      in bind_err (list_get base_columns tb_index) (\<lambda>tb.
         bind_err (list_get base_columns tb_col) (\<lambda>col.
           Inr (l\<lparr>l_sources := Some (tb, slice_1_m1 col)\<rparr>))))"

definition on_null :: "string list \<Rightarrow> string \<Rightarrow> locals \<Rightarrow> py_error + locals" where
  "on_null base_columns token l =
     bind_err (list_get base_columns (int (index_of base_columns token) - 1)) (\<lambda>prev.
       Inr (l\<lparr>l_notnull := (lower prev = ''not'')\<rparr>))"

definition token_step :: "string list \<Rightarrow> string \<Rightarrow> locals \<Rightarrow> py_error + locals" where
  "token_step base_columns token l =
     (let token_lowered = lower token in
      bind_err (if token_lowered = ''defaults'' then on_defaults base_columns token l else Inr l) (\<lambda>l.
      bind_err (Inr (if token_lowered = ''primary'' then l\<lparr>l_primary := True\<rparr> else l)) (\<lambda>l.
      bind_err (Inr (if token_lowered = ''foreign'' then l\<lparr>l_foreign := True\<rparr> else l)) (\<lambda>l.
      bind_err (if token_lowered = ''reference'' then on_reference base_columns token l else Inr l) (\<lambda>l.
      bind_err (if token_lowered = ''null'' then on_null base_columns token l else Inr l) (\<lambda>l.
      Inr (if token_lowered = ''unique'' then l\<lparr>l_unique := True\<rparr> else l)))))))"

fun token_loop :: "string list \<Rightarrow> string list \<Rightarrow> locals \<Rightarrow> py_error + locals" where
  "token_loop base_columns [] l = Inr l"
| "token_loop base_columns (token # tokens) l =
     bind_err (token_step base_columns token l) (token_loop base_columns tokens)"

definition plain_row :: "string \<Rightarrow> string \<Rightarrow> row" where
  "plain_row nm ty =
     \<lparr>r_name = nm, r_type = ty, r_foreign = False, r_source = None, r_primary = False,
      r_unique = False, r_nullable = True, r_default = None, r_extra = []\<rparr>"

definition row_of_locals :: "string \<Rightarrow> string \<Rightarrow> locals \<Rightarrow> row" where
  "row_of_locals nm ty l =
     \<lparr>r_name = nm, r_type = ty, r_foreign = l_foreign l,
      r_source = (case l_sources l of None \<Rightarrow> None | Some (tb, col) \<Rightarrow> Some (tb @ ''/'' @ col)),
      r_primary = l_primary l, r_unique = l_unique l, r_nullable = (\<not> l_notnull l),
      r_default = (if str_truthy (l_defaults l) then l_defaults l else None), r_extra = []\<rparr>"

text \<open>
  The loop over \<open>data.split(",")\<close>. \<open>_SQLITETYPES\<close> is a constant of \<open>luminadb/locals.py\<close>,
  taken as the argument \<open>SQLITETYPES\<close>. A fragment whose second token is no type ends the
  loop (\<open>break\<close>); a fragment with fewer than two tokens raises at \<open>base_columns[1]\<close>.
\<close>

fun fragment_loop ::
  "string set \<Rightarrow> string list \<Rightarrow> (string, row) dict \<Rightarrow> py_error + (string, row) dict" where
  "fragment_loop SQLITETYPES [] upheld = Inr upheld"
| "fragment_loop SQLITETYPES (constr # rest) upheld =
     bind_err (shlex constr) (\<lambda>base_columns.
     bind_err (list_get base_columns 1) (\<lambda>second.
       if second \<notin> SQLITETYPES then Inr upheld
       else
         bind_err (list_get base_columns 0) (\<lambda>nm.
         bind_err (list_get base_columns 1) (\<lambda>ty.
           if length base_columns = 2
           then fragment_loop SQLITETYPES rest (dict_set nm (plain_row nm ty) upheld)
           else
             bind_err (token_loop base_columns base_columns init_locals) (\<lambda>l.
               fragment_loop SQLITETYPES rest (dict_set nm (row_of_locals nm ty l) upheld))))))"

text \<open>\<open>basic_extract\<close> returns \<open>(cols, upheld)\<close>, and \<open>cols\<close> is always the empty list.\<close>

definition basic_extract ::
  "string set \<Rightarrow> string \<Rightarrow> py_error + (row list \<times> (string, row) dict)" where
  "basic_extract SQLITETYPES table_creation =
     (let data = body_of table_creation
      in bind_err (fragment_loop SQLITETYPES (split (CHR '','') data) [])
           (\<lambda>upheld. Inr ([], upheld)))"

text \<open>
  The examples below run the parser with the five storage classes of SQLite as the table
  of types; every other statement about the parser holds for any table, or says what it
  needs of it.
\<close>

definition sqlite_types :: "string set" where
  "sqlite_types = {''null'', ''integer'', ''real'', ''text'', ''blob''}"

section \<open>The lexer of wrapped spans: \<open>filter_extraction\<close>\<close>

text \<open>
  Modelled from the spec: \<open>filter_extraction\<close> of \<open>query_builder/utils.py\<close>, which is not
  among the sources. The specification (4.1) gives its contract: from the raw string and
  its tokens it returns the placeholder keys in order of first appearance, the mapping
  from a key to the original span with its enclosing parentheses or quotes, and the text
  with every parenthesized or quoted span replaced by its key; a parenthesized span is
  one unit whatever its nesting or commas, and two spans one after the other stay
  distinct. The keys are \<open>:wrap0\<close>, \<open>:wrap1\<close>, ... : \<open>extract_table\<close> reads a key as the
  two tokens after the keyword pair and tests it with \<open>startswith(":wrap")\<close>. The
  specification leaves unbalanced input undefined; here an open span runs to the end.
\<close>

datatype wrap_state = Top | Paren nat | Quoted char

definition wrap_key :: "nat \<Rightarrow> string" where
  "wrap_key n = '':wrap'' @ str_nat n"

fun wrap_scan ::
  "wrap_state \<Rightarrow> nat \<Rightarrow> string \<Rightarrow> string \<Rightarrow> (string, string) dict \<times> string" where
  "wrap_scan Top n span [] = ([], [])"
| "wrap_scan (Paren d) n span [] = ([(wrap_key n, span)], wrap_key n)"
| "wrap_scan (Quoted q) n span [] = ([(wrap_key n, span)], wrap_key n)"
| "wrap_scan Top n span (c # cs) =
     (if c = CHR ''('' then wrap_scan (Paren 0) n [c] cs
      else if c = squote \<or> c = dquote then wrap_scan (Quoted c) n [c] cs
      else (let (m, out) = wrap_scan Top n [] cs in (m, c # out)))"
| "wrap_scan (Paren d) n span (c # cs) =
     (if c = CHR ''('' then wrap_scan (Paren (Suc d)) n (span @ [c]) cs
      else if c = CHR '')'' then
        (case d of
           0 \<Rightarrow> (let (m, out) = wrap_scan Top (Suc n) [] cs
                 in ((wrap_key n, span @ [c]) # m, wrap_key n @ out))
         | Suc d' \<Rightarrow> wrap_scan (Paren d') n (span @ [c]) cs)
      else wrap_scan (Paren d) n (span @ [c]) cs)"
| "wrap_scan (Quoted q) n span (c # cs) =
     (if c = q then (let (m, out) = wrap_scan Top (Suc n) [] cs
                     in ((wrap_key n, span @ [c]) # m, wrap_key n @ out))
      else wrap_scan (Quoted q) n (span @ [c]) cs)"

definition filter_extraction ::
  "string \<Rightarrow> string list \<Rightarrow> string list \<times> (string, string) dict \<times> string" where
  "filter_extraction data shlexed =
     (let (m, out) = wrap_scan Top 0 [] data in (map fst m, m, out))"

section \<open>The parser, phase 2: \<open>extract_table\<close>\<close>

text \<open>\<open>"".join(column_shlexed[next_ : next_ + 2])\<close>, looked up when it is a placeholder.\<close>

definition resolve_wrap :: "(string, string) dict \<Rightarrow> string list \<Rightarrow> nat \<Rightarrow> py_error + string" where
  "resolve_wrap paren_wrap column_shlexed nxt =
     (let str_wrap = concat (take 2 (drop nxt column_shlexed))
      in if startswith str_wrap '':wrap'' then dict_lookup paren_wrap str_wrap else Inr str_wrap)"

definition unquote :: "string \<Rightarrow> string" where
  "unquote nm = (if startswith nm [squote] \<or> startswith nm [dquote] then slice_1_m1 nm else nm)"

definition inline_primaries :: "(string, row) dict \<Rightarrow> string set" where
  "inline_primaries upheld = set (map fst (filter (\<lambda>(n, v). r_primary v) upheld))"

text \<open>\<open>upheld[key][4] = True\<close> for every name of the clause, a \<open>KeyError\<close> at the first
  name that is no column.\<close>

fun mark_primary :: "string list \<Rightarrow> (string, row) dict \<Rightarrow> py_error + (string, row) dict" where
  "mark_primary [] upheld = Inr upheld"
| "mark_primary (nm # names) upheld =
     (let key = unquote nm
      in bind_err (dict_lookup upheld key) (\<lambda>v.
           mark_primary names (dict_set key (v\<lparr>r_primary := True\<rparr>) upheld)))"

text \<open>\<open>wrap[1:-1].split(",") if wrap.startswith("(") else wrap.split(",")\<close>\<close>

definition clause_names :: "string \<Rightarrow> string list" where
  "clause_names wrap =
     (if startswith wrap ''('' then split (CHR '','') (slice_1_m1 wrap) else split (CHR '','') wrap)"

definition on_primary ::
  "(string, string) dict \<Rightarrow> string list \<Rightarrow> nat \<Rightarrow> (string, row) dict
   \<Rightarrow> py_error + (string, row) dict" where
  "on_primary paren_wrap column_shlexed tindex upheld =
     (let nxt = tindex + 2
      in bind_err (resolve_wrap paren_wrap column_shlexed nxt) (\<lambda>wrap.
           let names = clause_names wrap;
               table_level = set (map unquote names)
           in if inline_primaries upheld \<noteq> {}
              then (if inline_primaries upheld \<noteq> table_level
                    then Inl (ValueError ConflictingPrimaryKeys)
                    else Inr upheld)
              else mark_primary names upheld))"

text \<open>\<open>upheld[name].append(column_shlexed[column_shlexed.index(word) + 1])\<close> when the word is
  among the tokens.\<close>

definition append_action ::
  "string \<Rightarrow> string list \<Rightarrow> string \<Rightarrow> (string, row) dict \<Rightarrow> py_error + (string, row) dict" where
  "append_action word column_shlexed nm upheld =
     (if word \<in> set column_shlexed
      then bind_err (list_get column_shlexed (int (index_of column_shlexed word) + 1)) (\<lambda>action.
           bind_err (dict_lookup upheld nm) (\<lambda>v.
             Inr (dict_set nm (v\<lparr>r_extra := r_extra v @ [action]\<rparr>) upheld)))
      else Inr upheld)"

definition on_foreign ::
  "(string, string) dict \<Rightarrow> string list \<Rightarrow> nat \<Rightarrow> (string, row) dict
   \<Rightarrow> py_error + (string, row) dict" where
  "on_foreign paren_wrap column_shlexed tindex upheld =
     (let nxt = tindex + 2
      in bind_err (resolve_wrap paren_wrap column_shlexed nxt) (\<lambda>wrap.
           let nm = (if startswith wrap ''('' then slice_1_m1 wrap else wrap);
               tb_index = nxt + 3;
               tb_col = tb_index + 1
           in bind_err (list_get column_shlexed (int (tb_col + 1))) (\<lambda>key_word.
              bind_err (dict_lookup paren_wrap ('':'' @ key_word)) (\<lambda>span.
              bind_err (list_get column_shlexed (int tb_index)) (\<lambda>tb.
                let source_col_str = slice_1_m1 span;
                    sources = tb @ ''/'' @ source_col_str
                in bind_err (dict_lookup upheld nm) (\<lambda>v.
                   bind_err (Inr (dict_set nm (v\<lparr>r_source := Some sources, r_foreign := True\<rparr>) upheld))
                     (\<lambda>upheld.
                   bind_err (append_action ''delete'' column_shlexed nm upheld) (\<lambda>upheld.
                     append_action ''update'' column_shlexed nm upheld))))))))"

text \<open>The loop over \<open>enumerate(column_shlexed)\<close>: \<open>primary\<close> ends it (\<open>break\<close>), \<open>foreign\<close>
  does not.\<close>

fun clause_loop ::
  "(string, string) dict \<Rightarrow> string list \<Rightarrow> nat \<Rightarrow> string list \<Rightarrow> (string, row) dict
   \<Rightarrow> py_error + (string, row) dict" where
  "clause_loop paren_wrap column_shlexed tindex [] upheld = Inr upheld"
| "clause_loop paren_wrap column_shlexed tindex (token # tokens) upheld =
     (let tl = lower token
      in if tl = ''primary'' then on_primary paren_wrap column_shlexed tindex upheld
         else if tl = ''foreign''
           then bind_err (on_foreign paren_wrap column_shlexed tindex upheld)
                  (clause_loop paren_wrap column_shlexed (Suc tindex) tokens)
         else clause_loop paren_wrap column_shlexed (Suc tindex) tokens upheld)"

fun column_string_loop ::
  "(string, string) dict \<Rightarrow> string list \<Rightarrow> (string, row) dict \<Rightarrow> py_error + (string, row) dict" where
  "column_string_loop paren_wrap [] upheld = Inr upheld"
| "column_string_loop paren_wrap (column_string # rest) upheld =
     bind_err (shlex column_string) (\<lambda>column_shlexed.
     bind_err (clause_loop paren_wrap column_shlexed 0 column_shlexed upheld)
       (column_string_loop paren_wrap rest))"

text \<open>
  \<open>extract_table\<close> ends by appending to \<open>cols\<close> one \<open>Column\<close> for every entry, built from
  the entry as its positional arguments; the model returns the entries, in the order of
  the dictionary.
\<close>

definition extract_table :: "string set \<Rightarrow> string \<Rightarrow> py_error + row list" where
  "extract_table SQLITETYPES table_creation =
     (let data = body_of table_creation
      in bind_err (basic_extract SQLITETYPES table_creation) (\<lambda>(cols, upheld).
         bind_err (shlex data) (\<lambda>shlexed.
           let (wrap, paren_wrap, filtered) = filter_extraction data shlexed
           in bind_err (column_string_loop paren_wrap (split (CHR '','') filtered) upheld) (\<lambda>upheld.
                Inr (cols @ map snd upheld)))))"

text \<open>A fragment that phase 2 passes over: it tokenizes, and none of its tokens is the
  keyword \<open>primary\<close> or \<open>foreign\<close>.\<close>

definition no_keyword :: "string list \<Rightarrow> bool" where
  "no_keyword toks = list_all (\<lambda>t. lower t \<noteq> ''primary'' \<and> lower t \<noteq> ''foreign'') toks"

definition passed_over :: "string \<Rightarrow> bool" where
  "passed_over column_string =
     (case shlex column_string of Inl e \<Rightarrow> False | Inr toks \<Rightarrow> no_keyword toks)"

section \<open>Primary key clauses in a text\<close>








section \<open>Constructing a column\<close>

text \<open>
  Modelled from the spec: the constructor of \<open>Column\<close> (\<open>luminadb/column.py\<close>), which is not
  among the sources; its test calls \<open>Column("a", "text", auto_increment=True)\<close> and expects
  a \<open>ValueError\<close>. The specification (3, 7): \<open>auto_increment\<close> is valid only when the column
  is primary, is the only primary column, and its resolved type is an integer type; any
  other combination fails at construction. What the check needs beside the descriptor is
  given as arguments: the type names that are integer types (\<open>integer_types\<close>), the type
  mapping that resolves the type (\<open>maps\<close>), and the other columns of the table the
  descriptor is built for (\<open>others\<close>).
\<close>

definition column_init ::
  "string set \<Rightarrow> (string, string) dict \<Rightarrow> column list \<Rightarrow> column \<Rightarrow> py_error + column" where
  "column_init integer_types maps others c =
     (if auto_increment c
         \<and> \<not> (primary c \<and> filter primary others = []
              \<and> dict_get maps (type c) (type c) \<in> integer_types)
      then Inl (ValueError InvalidColumn)
      else Inr c)"

text \<open>A column with a name and a type, no constraint and no reference.\<close>

definition plain_column :: "string \<Rightarrow> string \<Rightarrow> column" where
  "plain_column nm ty =
     \<lparr>name = nm, type = ty, nullable = True, unique = False, default = None, primary = False,
      auto_increment = False, raw_source = None, source = [], source_column = [],
      on_delete = [], on_update = []\<rparr>"

section \<open>Phase 1 is partial\<close>

lemma split_not_Nil: "split sep s \<noteq> []"
  by (induction s) (auto split: list.splits)

text \<open>
  C10. \<open>basic_extract\<close> reads \<open>base_columns[1]\<close> before it looks at the length of the token
  list: when the first fragment of the body has fewer than two tokens, the call raises
  \<open>IndexError\<close>, whatever the table of types is.
\<close>

theorem basic_extract_short_fragment:
  assumes "split (CHR '','') (body_of table_creation) = constr # rest"
    and "shlex constr = Inr base_columns"
    and "length base_columns < 2"
  shows "basic_extract SQLITETYPES table_creation = Inl IndexError"
proof -
  have "list_get base_columns 1 = Inl IndexError"
    using assms(3) by (simp add: list_get_def)
  then have "fragment_loop SQLITETYPES (constr # rest) [] = Inl IndexError"
    using assms(2) by (simp add: bind_err_def)
  then show ?thesis
    using assms(1) by (simp add: basic_extract_def bind_err_def)
qed

text \<open>The empty body \<open>CREATE TABLE t ()\<close> is such an input.\<close>

theorem basic_extract_short_fragment_witness:
  "split (CHR '','') (body_of ''CREATE TABLE t ()'') = [] # []
   \<and> shlex [] = Inr []
   \<and> length ([] :: string list) < 2
   \<and> basic_extract sqlite_types ''CREATE TABLE t ()'' = Inl IndexError"
proof -
  have b: "body_of ''CREATE TABLE t ()'' = []" by code_simp
  have 1: "split (CHR '','') (body_of ''CREATE TABLE t ()'') = [] # []" by (simp add: b)
  have 2: "shlex [] = Inr []" by (simp add: shlex_def)
  have 3: "length ([] :: string list) < 2" by simp
  show ?thesis using basic_extract_short_fragment [OF 1 2 3, of sqlite_types] 1 2 3 by blast
qed

section \<open>The generated text\<close>

lemma map_of_dict_set: "map_of (dict_set k v m) = (map_of m)(k \<mapsto> v)"
  by (induction m) auto

lemma map_of_dict_update:
  "distinct (map fst other) \<Longrightarrow>
   map_of (dict_update m other) k = (case map_of other k of Some v \<Rightarrow> Some v | None \<Rightarrow> map_of m k)"
  unfolding dict_update_def
proof (induction other arbitrary: m)
  case Nil
  then show ?case by simp
next
  case (Cons p other)
  obtain a b where p: "p = (a, b)" by (cases p)
  have notin: "map_of other a = None"
    using Cons.prems p by (simp add: map_of_eq_None_iff)
  show ?case
    using Cons.IH [of "dict_set a b m"] Cons.prems p notin
    by (auto simp: map_of_dict_set split: option.splits)
qed

lemma iterate_etbc_step1_closed:
  "iterate_etbc_step1 cols s ps fs maps pc =
     (s @ concat (map (\<lambda>c. process_column_constraints c (dict_get maps (type c) (type c)) pc @ '','') cols),
      ps @ filter (\<lambda>c. primary c \<and> pc \<noteq> 1) cols,
      fs @ filter (\<lambda>c. str_truthy (raw_source c)) cols)"
  by (induction cols arbitrary: s ps fs) (simp_all add: Let_def)

lemma add_foreign_keys_string:
  "string (fold (\<lambda>col self. self\<lparr>string := string self @ f col\<rparr>) cs self) =
     string self @ concat (map f cs)"
  by (induction cs arbitrary: self) simp_all

lemma process_columns_string:
  "string (process_columns (init_extractor D cols tm)) =
     concat (map (\<lambda>c. process_column_constraints c
                   (dict_get (get_type_mappings D tm) (type c) (type c))
                   (length (filter primary cols)) @ '','') cols)"
  by (simp add: process_columns_def init_extractor_def iterate_etbc_step1_closed Let_def)

lemma process_columns_primaries:
  "primaries (process_columns (init_extractor D cols tm)) =
     filter (\<lambda>c. primary c \<and> length (filter primary cols) \<noteq> 1) cols"
  by (simp add: process_columns_def init_extractor_def iterate_etbc_step1_closed Let_def)

lemma process_columns_foreigns:
  "foreigns (process_columns (init_extractor D cols tm)) =
     filter (\<lambda>c. str_truthy (raw_source c)) cols"
  by (simp add: process_columns_def init_extractor_def iterate_etbc_step1_closed Let_def)

lemma add_primary_keys_foreigns: "foreigns (add_primary_keys self) = foreigns self"
  by (simp add: add_primary_keys_def)

lemma extract_shape:
  "extract_table_creations D A cols tm =
     slice_1_m1
       (string (add_primary_keys (process_columns (init_extractor D cols tm)))
        @ concat (map (foreign_key_clause A) (filter (\<lambda>c. str_truthy (raw_source c)) cols)))"
  by (simp add: extract_table_creations_def extractor_extract_def add_foreign_keys_def
      add_foreign_keys_string add_primary_keys_foreigns process_columns_foreigns)

lemma filter_primary_count:
  "filter (\<lambda>c. primary c \<and> length (filter primary cols) \<noteq> 1) cols =
     (if 2 \<le> length (filter primary cols) then filter primary cols else [])"
proof (cases "length (filter primary cols) = 1")
  case True
  then show ?thesis by simp
next
  case False
  show ?thesis
  proof (cases "length (filter primary cols) = 0")
    case True
    then have "filter primary cols = []" by simp
    then show ?thesis using False by simp
  next
    case nz: False
    then have "2 \<le> length (filter primary cols)" using False by arith
    then show ?thesis using False by simp
  qed
qed


lemma add_primary_keys_string:
  "string (add_primary_keys (process_columns (init_extractor D cols tm))) =
     concat (map (\<lambda>c. process_column_constraints c
                   (dict_get (get_type_mappings D tm) (type c) (type c))
                   (length (filter primary cols)) @ '','') cols)
     @ (if 2 \<le> length (filter primary cols)
        then '' primary key ('' @ join '', '' (map name (filter primary cols)) @ ''),''
        else [])"
proof (cases "2 \<le> length (filter primary cols)")
  case True
  then have "filter primary cols \<noteq> []" by auto
  then show ?thesis
    using True filter_primary_count [of cols]
    by (simp add: add_primary_keys_def process_columns_primaries process_columns_string)
next
  case False
  then show ?thesis
    using filter_primary_count [of cols]
    by (simp add: add_primary_keys_def process_columns_primaries process_columns_string)
qed

lemma generated_text:
  "extract_table_creations D A cols tm =
     slice_1_m1
       (concat (map (\<lambda>c. process_column_constraints c
                     (dict_get (get_type_mappings D tm) (type c) (type c))
                     (length (filter primary cols)) @ '','') cols)
        @ (if 2 \<le> length (filter primary cols)
           then '' primary key ('' @ join '', '' (map name (filter primary cols)) @ ''),''
           else [])
        @ concat (map (foreign_key_clause A) (filter (\<lambda>c. str_truthy (raw_source c)) cols)))"
  by (simp only: extract_shape add_primary_keys_string append_assoc)

lemma resolve_type:
  assumes "case tm of None \<Rightarrow> True | Some ov \<Rightarrow> distinct (map fst ov)"
  shows "dict_get (get_type_mappings D tm) t t =
     (case (case tm of None \<Rightarrow> None | Some ov \<Rightarrow> map_of ov t) of
        Some v \<Rightarrow> v
      | None \<Rightarrow> (case map_of D t of Some v \<Rightarrow> v | None \<Rightarrow> t))"
proof (cases tm)
  case None
  then show ?thesis by (simp add: get_type_mappings_def dict_get_def)
next
  case (Some ov)
  then have d: "distinct (map fst ov)" using assms by simp
  show ?thesis
  proof (cases "ov = []")
    case True
    then show ?thesis using Some by (simp add: get_type_mappings_def dict_get_def)
  next
    case False
    then show ?thesis
      using Some map_of_dict_update [OF d, of D t]
      by (simp add: get_type_mappings_def dict_get_def split: option.splits)
  qed
qed

text \<open>
  C9. The generator resolves the type of every column through the default mapping
  updated with the caller's mapping: the caller's entry when it has one for the type name,
  else the default mapping's entry, else the type name as it is. (A caller's mapping is a
  \<open>dict\<close>: its keys are distinct.)
\<close>

theorem generator_type_resolution:
  assumes "case tm of None \<Rightarrow> True | Some ov \<Rightarrow> distinct (map fst ov)"
  shows "string (process_columns (init_extractor D cols tm)) =
     concat (map (\<lambda>c. process_column_constraints c
                   (case (case tm of None \<Rightarrow> None | Some ov \<Rightarrow> map_of ov (type c)) of
                      Some v \<Rightarrow> v
                    | None \<Rightarrow> (case map_of D (type c) of Some v \<Rightarrow> v | None \<Rightarrow> type c))
                   (length (filter primary cols)) @ '','') cols)"
  by (simp add: process_columns_string resolve_type [OF assms])

text \<open>An override of one entry, over a default mapping of two.\<close>

theorem generator_type_resolution_witness:
  "distinct (map fst [(''string'', ''text'')])
   \<and> string (process_columns (init_extractor [(''string'', ''varchar''), (''int'', ''integer'')]
        [plain_column ''a'' ''string'', plain_column ''b'' ''int'', plain_column ''c'' ''blob'']
        (Some [(''string'', ''text'')])))
     = '' a text, b integer, c blob,''"
proof -
  have d: "case Some [(''string'', ''text'')] of None \<Rightarrow> True | Some ov \<Rightarrow> distinct (map fst ov)"
    by simp
  show ?thesis
    using generator_type_resolution [OF d, of "[(''string'', ''varchar''), (''int'', ''integer'')]"
        "[plain_column ''a'' ''string'', plain_column ''b'' ''int'', plain_column ''c'' ''blob'']"]
    by (simp add: plain_column_def process_column_constraints_def)
qed

text \<open>
  C6. The generated text is the column definitions, then the table-level primary key
  clause when there is one, then for every column with a foreign-key target, in the order
  of the input, the clause \<open>foreign key (name) references table (column) on delete action
  on update action\<close>; whether the column is primary plays no part in it. (The slice
  \<open>[1:-1]\<close> drops the leading space and the last comma.)
\<close>

theorem foreign_key_clauses:
  "extract_table_creations D A cols tm =
     slice_1_m1
       (concat (map (\<lambda>c. process_column_constraints c
                     (dict_get (get_type_mappings D tm) (type c) (type c))
                     (length (filter primary cols)) @ '','') cols)
        @ (if 2 \<le> length (filter primary cols)
           then '' primary key ('' @ join '', '' (map name (filter primary cols)) @ ''),''
           else [])
        @ concat (map (\<lambda>c. '' foreign key ('' @ name c @ '') references '' @ source c
                           @ '' ('' @ source_column c @ '')''
                           @ '' on delete ''
                           @ (case map_of A (on_delete c) of Some a \<Rightarrow> a | None \<Rightarrow> on_delete c)
                           @ '' on update ''
                           @ (case map_of A (on_update c) of Some a \<Rightarrow> a | None \<Rightarrow> on_update c)
                           @ '','')
                     (filter (\<lambda>c. str_truthy (raw_source c)) cols)))"
proof -
  have "foreign_key_clause A =
          (\<lambda>c. '' foreign key ('' @ name c @ '') references '' @ source c
                 @ '' ('' @ source_column c @ '')''
                 @ '' on delete ''
                 @ (case map_of A (on_delete c) of Some a \<Rightarrow> a | None \<Rightarrow> on_delete c)
                 @ '' on update ''
                 @ (case map_of A (on_update c) of Some a \<Rightarrow> a | None \<Rightarrow> on_update c)
                 @ '','')"
    by (rule ext) (simp add: foreign_key_clause_def iterate_sql_action_def dict_get_def)
  then show ?thesis
    by (simp only: extract_shape add_primary_keys_string append_assoc)
qed


subsection \<open>Counting the primary key clauses\<close>

































section \<open>Constructing a column with \<open>auto_increment\<close>\<close>

text \<open>
  C3. Constructing a column with \<open>auto_increment\<close> and a resolved type that is no integer
  type, or with \<open>auto_increment\<close> when the column is not the sole primary column (it is not
  primary, or another column is), raises the \<open>ValueError\<close> of the constructor. The error
  comes from the constructor: the generator returns a text for every list of columns.
\<close>

theorem autoincrement_validity:
  assumes "auto_increment c"
    and "dict_get maps (type c) (type c) \<notin> integer_types
         \<or> \<not> (primary c \<and> filter primary others = [])"
  shows "column_init integer_types maps others c = Inl (ValueError InvalidColumn)"
  using assms by (auto simp: column_init_def)

text \<open>The call of the test, \<open>Column("a", "text", auto_increment=True)\<close>, and an integer
  primary column beside another primary column.\<close>

theorem autoincrement_validity_witness:
  "column_init {''integer''} [] [] ((plain_column ''a'' ''text'')\<lparr>auto_increment := True\<rparr>)
     = Inl (ValueError InvalidColumn)
   \<and> column_init {''integer''} [] [(plain_column ''b'' ''integer'')\<lparr>primary := True\<rparr>]
       ((plain_column ''a'' ''integer'')\<lparr>primary := True, auto_increment := True\<rparr>)
     = Inl (ValueError InvalidColumn)"
proof -
  let ?c = "(plain_column ''a'' ''text'')\<lparr>auto_increment := True\<rparr>"
  let ?d = "(plain_column ''a'' ''integer'')\<lparr>primary := True, auto_increment := True\<rparr>"
  let ?b = "(plain_column ''b'' ''integer'')\<lparr>primary := True\<rparr>"
  have 1: "column_init {''integer''} [] [] ?c = Inl (ValueError InvalidColumn)"
    using autoincrement_validity [where c = ?c and integer_types = "{''integer''}"
        and maps = "[]" and others = "[]"]
    by (simp add: plain_column_def dict_get_def)
  have 2: "column_init {''integer''} [] [?b] ?d = Inl (ValueError InvalidColumn)"
    using autoincrement_validity [where c = ?d and integer_types = "{''integer''}"
        and maps = "[]" and others = "[?b]"]
    by (simp add: plain_column_def dict_get_def)
  show ?thesis using 1 2 by blast
qed

section \<open>Inline and table-level primary keys\<close>

lemma clause_loop_no_keyword:
  "no_keyword rest \<Longrightarrow> clause_loop pw toks k rest upheld = Inr upheld"
  by (induction rest arbitrary: k) (simp_all add: no_keyword_def Let_def)

lemma clause_loop_primary:
  "no_keyword before \<Longrightarrow> lower tok = ''primary'' \<Longrightarrow>
   clause_loop pw toks k (before @ tok # after) upheld = on_primary pw toks (k + length before) upheld"
  by (induction before arbitrary: k) (simp_all add: no_keyword_def Let_def)

lemma column_string_loop_passed_over:
  "list_all passed_over pre \<Longrightarrow>
   column_string_loop pw (pre @ rest) upheld = column_string_loop pw rest upheld"
proof (induction pre)
  case Nil
  then show ?case by simp
next
  case (Cons c pre)
  then obtain toks where t: "shlex c = Inr toks" "no_keyword toks"
    by (auto simp: passed_over_def split: sum.splits)
  show ?case
    using Cons t by (simp add: bind_err_def clause_loop_no_keyword)
qed

text \<open>
  C4. When phase 1 has found a column with an inline primary key, and the first fragment of
  phase 2 that holds a keyword holds \<open>primary\<close> with a group of names that is not the
  set of the inline primary columns, \<open>extract_table\<close> raises the \<open>ValueError\<close> "Conflicting
  primary key definitions" and returns nothing. The fragments before it hold no keyword;
  the group is the two tokens after \<open>primary key\<close>, looked up when it is a placeholder.
\<close>

theorem conflicting_primary_keys_raise:
  assumes p1: "basic_extract T s = Inr (cols, upheld)"
    and lex: "shlex (body_of s) = Inr shlexed"
    and fe: "filter_extraction (body_of s) shlexed = (keys, paren_wrap, filtered)"
    and sp: "split (CHR '','') filtered = pre @ column_string # post"
    and pre: "list_all passed_over pre"
    and toks: "shlex column_string = Inr (before @ tok # after)"
    and nk: "no_keyword before"
    and tok: "lower tok = ''primary''"
    and wr: "resolve_wrap paren_wrap (before @ tok # after) (length before + 2) = Inr wrap"
    and inl: "inline_primaries upheld \<noteq> {}"
    and diff: "inline_primaries upheld \<noteq> set (map unquote (clause_names wrap))"
  shows "extract_table T s = Inl (ValueError ConflictingPrimaryKeys)"
proof -
  have "on_primary paren_wrap (before @ tok # after) (length before) upheld
          = Inl (ValueError ConflictingPrimaryKeys)"
    using wr inl diff by (simp add: on_primary_def bind_err_def Let_def)
  then have "clause_loop paren_wrap (before @ tok # after) 0 (before @ tok # after) upheld
          = Inl (ValueError ConflictingPrimaryKeys)"
    using clause_loop_primary [OF nk tok, of paren_wrap "before @ tok # after" 0 after upheld]
    by simp
  then have "column_string_loop paren_wrap (column_string # post) upheld
          = Inl (ValueError ConflictingPrimaryKeys)"
    using toks by (simp add: bind_err_def)
  then have "column_string_loop paren_wrap (split (CHR '','') filtered) upheld
          = Inl (ValueError ConflictingPrimaryKeys)"
    using sp column_string_loop_passed_over [OF pre, of paren_wrap "column_string # post" upheld]
    by simp
  then show ?thesis
    using p1 lex fe by (simp add: extract_table_def bind_err_def Let_def)
qed

text \<open>
  The example of the specification: an inline primary key on \<open>a\<close> and a table-level clause
  over \<open>a\<close> and \<open>b\<close>. The fragment that raises is the first that holds the keyword, the
  column's own \<open>a integer primary key\<close>: no token follows \<open>primary key\<close> there, and the
  names it gives are the one empty name.
\<close>

theorem conflicting_primary_keys_raise_witness:
  "inline_primaries [(''a'', (plain_row ''a'' ''integer'')\<lparr>r_primary := True\<rparr>), (''b'', plain_row ''b'' ''text'')] = {''a''}
   \<and> set (map unquote (clause_names [])) = {[]}
   \<and> extract_table sqlite_types ''CREATE TABLE t (a integer primary key, b text, primary key (a, b))''
       = Inl (ValueError ConflictingPrimaryKeys)"
proof -
  let ?s = "''CREATE TABLE t (a integer primary key, b text, primary key (a, b))''"
  let ?upheld = "[(''a'', (plain_row ''a'' ''integer'')\<lparr>r_primary := True\<rparr>), (''b'', plain_row ''b'' ''text'')]"
  let ?shlexed = "[''a'', ''integer'', ''primary'', ''key'', '','', ''b'', ''text'', '','',
                   ''primary'', ''key'', ''('', ''a'', '','', ''b'', '')'']"
  let ?pw = "[('':wrap0'', ''(a, b)'')]"
  let ?filtered = "''a integer primary key, b text, primary key :wrap0''"
  have p1: "basic_extract sqlite_types ?s = Inr ([], ?upheld)" by code_simp
  have lex: "shlex (body_of ?s) = Inr ?shlexed" by code_simp
  have fe: "filter_extraction (body_of ?s) ?shlexed = (['':wrap0''], ?pw, ?filtered)" by code_simp
  have sp: "split (CHR '','') ?filtered = [] @ ''a integer primary key'' # ['' b text'', '' primary key :wrap0'']"
    by code_simp
  have pre: "list_all passed_over []" by simp
  have toks: "shlex ''a integer primary key'' = Inr ([''a'', ''integer''] @ ''primary'' # [''key''])"
    by code_simp
  have nk: "no_keyword [''a'', ''integer'']" by code_simp
  have tok: "lower ''primary'' = ''primary''" by code_simp
  have wr: "resolve_wrap ?pw ([''a'', ''integer''] @ ''primary'' # [''key'']) (length [''a'', ''integer''] + 2) = Inr []"
    by code_simp
  have i1: "inline_primaries ?upheld = {''a''}" by code_simp
  have i2: "set (map unquote (clause_names [])) = {[]}" by code_simp
  have inl: "inline_primaries ?upheld \<noteq> {}" using i1 by simp
  have diff: "inline_primaries ?upheld \<noteq> set (map unquote (clause_names []))"
    using i1 i2 by simp
  show ?thesis
    using conflicting_primary_keys_raise [OF p1 lex fe sp pre toks nk tok wr inl diff] i1 i2
    by blast
qed

section \<open>Generating and parsing back\<close>

text \<open>
  C1. The round trip does not return the descriptors it was given. One column \<open>a\<close> of type
  \<open>text\<close> with the default \<open>'x'\<close> is generated as \<open>a text default 'x'\<close>; parsing that back
  gives the column without a default, since phase 1 looks for the keyword \<open>defaults\<close>.
  (\<open>text\<close> is taken to be a type name that the default mapping leaves as it is.)
\<close>

theorem round_trip_loses_default:
  assumes "dict_get D ''text'' ''text'' = ''text''"
  shows "extract_table_creations D A [(plain_column ''a'' ''text'')\<lparr>default := Some (PStr ''x'')\<rparr>] None
           = ''a text default '' @ [squote] @ ''x'' @ [squote]
         \<and> extract_table sqlite_types
             (''CREATE TABLE t (''
              @ extract_table_creations D A [(plain_column ''a'' ''text'')\<lparr>default := Some (PStr ''x'')\<rparr>] None
              @ '')'')
           = Inr [\<lparr>r_name = ''a'', r_type = ''text'', r_foreign = False, r_source = None,
                   r_primary = False, r_unique = False, r_nullable = True, r_default = None,
                   r_extra = []\<rparr>]"
proof -
  have g: "extract_table_creations D A [(plain_column ''a'' ''text'')\<lparr>default := Some (PStr ''x'')\<rparr>] None
           = ''a text default '' @ [squote] @ ''x'' @ [squote]"
    using assms
    by (simp add: generated_text plain_column_def process_column_constraints_def
        get_type_mappings_def str_truthy_def slice_1_m1_def repr_char_def printable_def Let_def
        squote_def dquote_def)
  have p: "extract_table sqlite_types (''CREATE TABLE t ('' @ (''a text default '' @ [squote] @ ''x'' @ [squote]) @ '')'')
           = Inr [\<lparr>r_name = ''a'', r_type = ''text'', r_foreign = False, r_source = None,
                   r_primary = False, r_unique = False, r_nullable = True, r_default = None,
                   r_extra = []\<rparr>]"
    by code_simp
  show ?thesis using g p by simp
qed

theorem round_trip_loses_default_witness:
  "dict_get [] ''text'' ''text'' = ''text''
   \<and> extract_table sqlite_types
             (''CREATE TABLE t (''
              @ extract_table_creations [] [] [(plain_column ''a'' ''text'')\<lparr>default := Some (PStr ''x'')\<rparr>] None
              @ '')'')
           = Inr [\<lparr>r_name = ''a'', r_type = ''text'', r_foreign = False, r_source = None,
                   r_primary = False, r_unique = False, r_nullable = True, r_default = None,
                   r_extra = []\<rparr>]"
proof -
  have h: "dict_get ([] :: (string, string) dict) ''text'' ''text'' = ''text''"
    by (simp add: dict_get_def)
  show ?thesis using round_trip_loses_default [OF h, of "[]"] h by blast
qed

text \<open>
  C5. Two primary columns \<open>a\<close> and \<open>b\<close> are generated with no inline marker and the one
  clause \<open>primary key (a, b)\<close>. Parsing that text back raises \<open>KeyError\<close>: the names of the
  clause are split at the commas and not stripped, and \<open>" b"\<close> is no column.
\<close>

theorem composite_key_not_parsed_back:
  assumes "dict_get D ''integer'' ''integer'' = ''integer''"
  shows "extract_table_creations D A
           [(plain_column ''a'' ''integer'')\<lparr>primary := True\<rparr>,
            (plain_column ''b'' ''integer'')\<lparr>primary := True\<rparr>] None
           = ''a integer, b integer, primary key (a, b)''
         \<and> extract_table sqlite_types
             (''CREATE TABLE t (''
              @ extract_table_creations D A
                  [(plain_column ''a'' ''integer'')\<lparr>primary := True\<rparr>,
                   (plain_column ''b'' ''integer'')\<lparr>primary := True\<rparr>] None
              @ '')'')
           = Inl KeyError"
proof -
  have g: "extract_table_creations D A
           [(plain_column ''a'' ''integer'')\<lparr>primary := True\<rparr>,
            (plain_column ''b'' ''integer'')\<lparr>primary := True\<rparr>] None
           = ''a integer, b integer, primary key (a, b)''"
    using assms
    by (simp add: generated_text plain_column_def process_column_constraints_def
        get_type_mappings_def str_truthy_def slice_1_m1_def)
  have p: "extract_table sqlite_types (''CREATE TABLE t ('' @ ''a integer, b integer, primary key (a, b)'' @ '')'')
           = Inl KeyError"
    by code_simp
  show ?thesis using g p by simp
qed

theorem composite_key_not_parsed_back_witness:
  "dict_get [] ''integer'' ''integer'' = ''integer''
   \<and> extract_table sqlite_types
             (''CREATE TABLE t (''
              @ extract_table_creations [] []
                  [(plain_column ''a'' ''integer'')\<lparr>primary := True\<rparr>,
                   (plain_column ''b'' ''integer'')\<lparr>primary := True\<rparr>] None
              @ '')'')
           = Inl KeyError"
proof -
  have h: "dict_get ([] :: (string, string) dict) ''integer'' ''integer'' = ''integer''"
    by (simp add: dict_get_def)
  show ?thesis using composite_key_not_parsed_back [OF h, of "[]"] h by blast
qed

text \<open>
  C7. An inline primary key and a table-level clause over the same columns, in the same
  or in another order, are not accepted: phase 2 reads the column's own fragment as a
  table-level clause, finds no name after \<open>primary key\<close>, and raises. An inline primary key
  alone is rejected in the same way.
\<close>

theorem inline_primary_key_rejected:
  "extract_table sqlite_types ''CREATE TABLE t (a integer primary key, primary key (a))''
     = Inl (ValueError ConflictingPrimaryKeys)
   \<and> extract_table sqlite_types ''CREATE TABLE t (a integer primary key, b integer primary key, primary key (b,a))''
     = Inl (ValueError ConflictingPrimaryKeys)
   \<and> extract_table sqlite_types ''CREATE TABLE t (a integer primary key)''
     = Inl (ValueError ConflictingPrimaryKeys)"
  by code_simp

text \<open>
  C8. Phase 1 records no default for \<open>a text default 'x'\<close>: the keyword it looks for is
  \<open>defaults\<close>. After that keyword the value is recorded with its quotes, \<open>'x'\<close>: the test
  that guards the removal of the quotes holds for every first character.
\<close>

theorem default_quotes_kept:
  "basic_extract sqlite_types (''CREATE TABLE t (a text default '' @ [squote] @ ''x'' @ [squote] @ '')'')
     = Inr ([], [(''a'', \<lparr>r_name = ''a'', r_type = ''text'', r_foreign = False, r_source = None,
                   r_primary = False, r_unique = False, r_nullable = True, r_default = None,
                   r_extra = []\<rparr>)])
   \<and> basic_extract sqlite_types (''CREATE TABLE t (a text defaults '' @ [squote] @ ''x'' @ [squote] @ '')'')
     = Inr ([], [(''a'', \<lparr>r_name = ''a'', r_type = ''text'', r_foreign = False, r_source = None,
                   r_primary = False, r_unique = False, r_nullable = True,
                   r_default = Some ([squote] @ ''x'' @ [squote]), r_extra = []\<rparr>)])"
  by code_simp

end
